theory Spec2Isabelle
  imports Main "HOL-Library.Word"
begin

section \<open>The request pipeline of go-http-template (main.go)\<close>

text \<open>
  The service is a chain of two middlewares around a route multiplexer:
  \<^verbatim>\<open>recovery(accesslog(mux))\<close>. Both middlewares wrap the response writer they are
  given in a \<^verbatim>\<open>responseRecorder\<close>. The embedding passes all state explicitly: a
  handler takes the writer it is given (its method set and its state), the request and
  the process-wide state (structured log, clock), and yields how it ended (normal return
  or panic) together with the new states. A panic keeps every effect made before it.
\<close>

subsection \<open>Values\<close>

type_synonym bytes = string

text \<open>A Go \<^verbatim>\<open>error\<close> is \<open>None\<close> for \<^verbatim>\<open>nil\<close>, else the text of \<^verbatim>\<open>err.Error()\<close>.\<close>

type_synonym go_error = "string option"

text \<open>
  \<^verbatim>\<open>http.Header\<close>, as far as the handlers use it: \<^verbatim>\<open>Set\<close> stores one value under a key,
  \<^verbatim>\<open>Del\<close> removes the key. All keys in the source are already in canonical form.
\<close>

type_synonym header = "string \<rightharpoonup> string"

text \<open>Go's \<^verbatim>\<open>int\<close> on a 64-bit platform; \<open>+\<close> wraps around, \<open>sint\<close> reads the value.\<close>

type_synonym go_int = "64 word"

text \<open>
  A value given to \<^verbatim>\<open>panic\<close>: the sentinel \<^verbatim>\<open>http.ErrAbortHandler\<close>, or any other value,
  represented by what \<^verbatim>\<open>fmt.Sprintf("%v", err)\<close> prints for it.
\<close>

datatype panic_value = ErrAbortHandler | PanicOther string

fun Sprintf_v :: "panic_value \<Rightarrow> string" where
  "Sprintf_v ErrAbortHandler = ''net/http: abort Handler''"
| "Sprintf_v (PanicOther s) = s"

datatype outcome = Returned | Panicked panic_value

record request =
  Method :: string
  Path :: string
  RawQuery :: string
  RemoteAddr :: string

subsection \<open>The http.ResponseWriter interface\<close>

text \<open>
  \<^verbatim>\<open>
  type ResponseWriter interface {
      Header() Header
      Write([]byte) (int, error)
      WriteHeader(statusCode int)
  }
  \<close>
  An implementation over a state type \<open>'w\<close> is a record of its methods. \<^verbatim>\<open>Header()\<close>
  returns a reference to a map that the caller mutates in place: \<open>Header\<close> reads that
  map and \<open>Header_put\<close> stores the mutated map back.
\<close>

record 'w writer_methods =
  Header :: "'w \<Rightarrow> header"
  Header_put :: "header \<Rightarrow> 'w \<Rightarrow> 'w"
  Write :: "bytes \<Rightarrow> 'w \<Rightarrow> (int \<times> go_error) \<times> 'w"
  WriteHeader :: "int \<Rightarrow> 'w \<Rightarrow> 'w"

definition Header_Set :: "'w writer_methods \<Rightarrow> string \<Rightarrow> string \<Rightarrow> 'w \<Rightarrow> 'w" where
  "Header_Set m k v w = Header_put m ((Header m w)(k \<mapsto> v)) w"

definition Header_Del :: "'w writer_methods \<Rightarrow> string \<Rightarrow> 'w \<Rightarrow> 'w" where
  "Header_Del m k w = Header_put m ((Header m w)(k := None)) w"

subsection \<open>responseRecorder\<close>

text \<open>
  \<^verbatim>\<open>
  type responseRecorder struct {
      http.ResponseWriter
      status   int
      numBytes int
  }
  \<close>
  The embedded writer is owned by the recorder: the state of the writer underneath is a
  field of the recorder's state, and the middleware that created the recorder reads it
  back from there when it uses its own \<^verbatim>\<open>w\<close> again.
\<close>

record 'w responseRecorder =
  ResponseWriter :: 'w
  status :: int
  numBytes :: go_int

text \<open>\<^verbatim>\<open>responseRecorder{ResponseWriter: w}\<close>: the other fields are zero.\<close>

definition new_recorder :: "'w \<Rightarrow> 'w responseRecorder" where
  "new_recorder w = \<lparr>ResponseWriter = w, status = 0, numBytes = 0\<rparr>"

definition responseRecorder_Header :: "'w writer_methods \<Rightarrow> 'w responseRecorder \<Rightarrow> header" where
  "responseRecorder_Header und re = Header und (ResponseWriter re)"

definition responseRecorder_Header_put ::
  "'w writer_methods \<Rightarrow> header \<Rightarrow> 'w responseRecorder \<Rightarrow> 'w responseRecorder" where
  "responseRecorder_Header_put und h re =
     re\<lparr>ResponseWriter := Header_put und h (ResponseWriter re)\<rparr>"

text \<open>
  \<^verbatim>\<open>
  func (re *responseRecorder) Write(b []byte) (int, error) {
      re.numBytes += len(b)
      return re.ResponseWriter.Write(b)
  }
  \<close>
\<close>

definition responseRecorder_Write ::
  "'w writer_methods \<Rightarrow> bytes \<Rightarrow> 'w responseRecorder \<Rightarrow> (int \<times> go_error) \<times> 'w responseRecorder" where
  "responseRecorder_Write und b re =
     (let re1 = re\<lparr>numBytes := numBytes re + of_nat (length b)\<rparr>;
          (res, w') = Write und b (ResponseWriter re1)
      in (res, re1\<lparr>ResponseWriter := w'\<rparr>))"

text \<open>
  \<^verbatim>\<open>
  func (re *responseRecorder) WriteHeader(statusCode int) {
      re.status = statusCode
      re.ResponseWriter.WriteHeader(statusCode)
  }
  \<close>
\<close>

definition responseRecorder_WriteHeader ::
  "'w writer_methods \<Rightarrow> int \<Rightarrow> 'w responseRecorder \<Rightarrow> 'w responseRecorder" where
  "responseRecorder_WriteHeader und statusCode re =
     (let re1 = re\<lparr>status := statusCode\<rparr>
      in re1\<lparr>ResponseWriter := WriteHeader und statusCode (ResponseWriter re1)\<rparr>)"

text \<open>The recorder as an implementation of the interface, over the writer underneath.\<close>

definition recorder_methods :: "'w writer_methods \<Rightarrow> 'w responseRecorder writer_methods" where
  "recorder_methods und =
     \<lparr>Header = responseRecorder_Header und,
      Header_put = responseRecorder_Header_put und,
      Write = responseRecorder_Write und,
      WriteHeader = responseRecorder_WriteHeader und\<rparr>"

subsection \<open>Sequences of calls on a writer\<close>

text \<open>
  What a handler does to its writer during one request is a finite sequence of method
  calls; each \<^verbatim>\<open>Write\<close> answers with a count and an error.
\<close>

datatype call =
    Call_Header_Set string string
  | Call_Header_Del string
  | Call_WriteHeader int
  | Call_Write bytes

datatype reply = Reply_none | Reply_Write int go_error

fun do_call :: "'w writer_methods \<Rightarrow> call \<Rightarrow> 'w \<Rightarrow> reply \<times> 'w" where
  "do_call m (Call_Header_Set k v) w = (Reply_none, Header_Set m k v w)"
| "do_call m (Call_Header_Del k) w = (Reply_none, Header_Del m k w)"
| "do_call m (Call_WriteHeader c) w = (Reply_none, WriteHeader m c w)"
| "do_call m (Call_Write b) w = (case Write m b w of ((n, err), w') \<Rightarrow> (Reply_Write n err, w'))"

fun do_calls :: "'w writer_methods \<Rightarrow> call list \<Rightarrow> 'w \<Rightarrow> reply list \<times> 'w" where
  "do_calls m [] w = ([], w)"
| "do_calls m (c # cs) w =
     (case do_call m c w of (r, w') \<Rightarrow>
        (case do_calls m cs w' of (rs, w'') \<Rightarrow> (r # rs, w'')))"

text \<open>The byte slices passed to \<^verbatim>\<open>Write\<close> in a sequence of calls, in order.\<close>

fun written :: "call list \<Rightarrow> bytes list" where
  "written [] = []"
| "written (Call_Write b # cs) = b # written cs"
| "written (_ # cs) = written cs"

text \<open>The codes passed to \<^verbatim>\<open>WriteHeader\<close> in a sequence of calls, in order.\<close>

fun statuses :: "call list \<Rightarrow> int list" where
  "statuses [] = []"
| "statuses (Call_WriteHeader c # cs) = c # statuses cs"
| "statuses (_ # cs) = statuses cs"

subsection \<open>Process-wide state: the structured log and the clock\<close>

text \<open>
  The lines given to \<^verbatim>\<open>slog\<close>, one constructor per call site of the source, with the
  attributes of that call in order.
\<close>

datatype log_entry =
    Log_accessed (latency: int) (log_method: string) (log_path: string) (log_query: string)
      (log_ip: string) (log_status: int) (log_bytes: int)
  | Log_panic (log_error: string) (log_stack: string) string string string string
  | Log_openapi_write_failed string

text \<open>
  \<open>slog\<close> is the output of the default logger, oldest line first; \<open>clock\<close> is what
  \<^verbatim>\<open>time.Now()\<close> reads, in nanoseconds; \<open>stacks\<close> is the text that
  \<^verbatim>\<open>runtime.Stack(buf, true)\<close> would format at this moment.
\<close>

record world =
  slog :: "log_entry list"
  clock :: int
  stacks :: string

definition slog_emit :: "log_entry \<Rightarrow> world \<Rightarrow> world" where
  "slog_emit e wd = wd\<lparr>slog := slog wd @ [e]\<rparr>"

fun is_accessed :: "log_entry \<Rightarrow> bool" where
  "is_accessed (Log_accessed _ _ _ _ _ _ _) = True"
| "is_accessed _ = False"

text \<open>The number of access-log lines in a log.\<close>

definition access_lines :: "log_entry list \<Rightarrow> nat" where
  "access_lines l = length (filter is_accessed l)"

subsection \<open>Handlers\<close>

text \<open>
  An \<^verbatim>\<open>http.Handler\<close> serving on a writer with state \<open>'w\<close>: \<^verbatim>\<open>ServeHTTP(w, r)\<close>.
\<close>

type_synonym 'w handler =
  "'w writer_methods \<Rightarrow> request \<Rightarrow> 'w \<Rightarrow> world \<Rightarrow> outcome \<times> 'w \<times> world"

text \<open>
  A handler that makes the given calls on its writer and then returns or panics as
  told.
\<close>

definition scripted :: "call list \<Rightarrow> outcome \<Rightarrow> 'w handler" where
  "scripted cs out m r w wd = (out, snd (do_calls m cs w), wd)"

text \<open>
  \<^verbatim>\<open>http.Error(w, error, code)\<close> of the standard library: it resets the content headers,
  writes the status and prints the message with \<^verbatim>\<open>fmt.Fprintln\<close>, that is, followed by a
  line feed, ignoring the result of the write.
\<close>

definition http_Error :: "'w writer_methods \<Rightarrow> 'w \<Rightarrow> string \<Rightarrow> int \<Rightarrow> 'w" where
  "http_Error m w msg code =
     (let w1 = Header_Del m ''Content-Length'' w;
          w2 = Header_Set m ''Content-Type'' ''text/plain; charset=utf-8'' w1;
          w3 = Header_Set m ''X-Content-Type-Options'' ''nosniff'' w2;
          w4 = WriteHeader m code w3
      in snd (Write m (msg @ [CHR 0x0A]) w4))"

subsection \<open>handleGetHealth\<close>

text \<open>
  The response body of the health handler. The type of \<^verbatim>\<open>time.Time\<close> values is a
  parameter \<open>'t\<close>.
\<close>

record 't responseBody =
  Version :: string
  Revision :: string
  Time :: 't
  Modified :: bool

text \<open>
  The loop over \<^verbatim>\<open>buildInfo.Settings\<close>. \<open>parse\<close> is
  \<^verbatim>\<open>time.Parse(time.RFC3339, _)\<close>, whose error is dropped: it then yields the zero
  time, which is \<open>parse\<close>'s value on such input.
\<close>

fun apply_setting :: "(string \<Rightarrow> 't) \<Rightarrow> 't responseBody \<Rightarrow> string \<times> string \<Rightarrow> 't responseBody" where
  "apply_setting parse res (k, v) =
     (if v = [] then res
      else if k = ''vcs.revision'' then res\<lparr>Revision := v\<rparr>
      else if k = ''vcs.time'' then res\<lparr>Time := parse v\<rparr>
      else if k = ''vcs.modified'' then res\<lparr>Modified := (v = ''true'')\<rparr>
      else res)"

text \<open>
  The value \<^verbatim>\<open>res\<close> built when \<^verbatim>\<open>handleGetHealth()\<close> is called. \<open>version\<close> is the
  package variable \<^verbatim>\<open>Version\<close>, \<open>zero\<close> the zero \<^verbatim>\<open>time.Time\<close>, \<open>buildInfo\<close> the
  result of \<^verbatim>\<open>debug.ReadBuildInfo()\<close>: \<open>None\<close> is the nil pointer, and reading its
  \<^verbatim>\<open>Settings\<close> panics.
\<close>

definition health_body ::
  "string \<Rightarrow> 't \<Rightarrow> (string \<Rightarrow> 't) \<Rightarrow> (string \<times> string) list option \<Rightarrow> panic_value + 't responseBody" where
  "health_body version zero parse buildInfo =
     (case buildInfo of
        None \<Rightarrow> Inl (PanicOther ''runtime error: invalid memory address or nil pointer dereference'')
      | Some settings \<Rightarrow>
          Inr (foldl (apply_setting parse)
                 \<lparr>Version = version, Revision = [], Time = zero, Modified = False\<rparr> settings))"

text \<open>
  \<^verbatim>\<open>json.NewEncoder(w).Encode(res)\<close>: the value is marshalled first (\<open>marshalled\<close> is the
  result of \<^verbatim>\<open>json.Marshal(res)\<close>: an error text or the bytes); on success the bytes and
  a line feed go to the writer in one \<^verbatim>\<open>Write\<close>, whose error is the result.
\<close>

definition json_Encode :: "'w writer_methods \<Rightarrow> string + bytes \<Rightarrow> 'w \<Rightarrow> go_error \<times> 'w" where
  "json_Encode m marshalled w =
     (case marshalled of
        Inl e \<Rightarrow> (Some e, w)
      | Inr b \<Rightarrow> (case Write m (b @ [CHR 0x0A]) w of ((n, err), w') \<Rightarrow> (err, w')))"

text \<open>
  The closure returned by \<^verbatim>\<open>handleGetHealth()\<close>, for the value \<^verbatim>\<open>res\<close> it captured;
  \<open>marshal\<close> is \<^verbatim>\<open>json.Marshal\<close> on that type.
  \<^verbatim>\<open>
  w.Header().Set("Content-Type", "application/json")
  w.WriteHeader(200)
  if err := json.NewEncoder(w).Encode(res); err != nil {
      http.Error(w, err.Error(), http.StatusInternalServerError)
  }
  \<close>
\<close>

definition handleGetHealth :: "('t responseBody \<Rightarrow> string + bytes) \<Rightarrow> 't responseBody \<Rightarrow> 'w handler" where
  "handleGetHealth marshal res m r w wd =
     (let w1 = Header_Set m ''Content-Type'' ''application/json'' w;
          w2 = WriteHeader m 200 w1;
          (err, w3) = json_Encode m (marshal res) w2
      in case err of
           None \<Rightarrow> (Returned, w3, wd)
         | Some e \<Rightarrow> (Returned, http_Error m w3 e 500, wd))"

subsection \<open>handleGetOpenapi\<close>

text \<open>
  \<open>openapi\<close> is the embedded file \<^verbatim>\<open>api/openapi.yaml\<close>.
  \<^verbatim>\<open>
  w.Header().Set("Content-Type", "text/plain")
  w.Header().Set("Access-Control-Allow-Origin", "*")
  w.WriteHeader(200)
  if _, err := w.Write(openapi); err != nil {
      slog.ErrorContext(r.Context(), "failed to write openapi", slog.Any("error", err))
  }
  \<close>
\<close>

definition handleGetOpenapi :: "bytes \<Rightarrow> 'w handler" where
  "handleGetOpenapi openapi m r w wd =
     (let w1 = Header_Set m ''Content-Type'' ''text/plain'' w;
          w2 = Header_Set m ''Access-Control-Allow-Origin'' ''*'' w1;
          w3 = WriteHeader m 200 w2;
          ((n, err), w4) = Write m openapi w3
      in case err of
           None \<Rightarrow> (Returned, w4, wd)
         | Some e \<Rightarrow> (Returned, w4, slog_emit (Log_openapi_write_failed e) wd))"

subsection \<open>accesslog\<close>

text \<open>
  \<^verbatim>\<open>
  start := time.Now()
  wr := responseRecorder{ResponseWriter: w}
  next.ServeHTTP(&wr, r)
  slog.InfoContext(r.Context(), "accessed", ...)
  \<close>
  The log call is a statement after the call of \<^verbatim>\<open>next\<close>: when \<^verbatim>\<open>next\<close> panics the
  function is left at that call and the statement is not reached.
\<close>

definition accesslog :: "'w responseRecorder handler \<Rightarrow> 'w handler" where
  "accesslog next m r w wd =
     (let start = clock wd;
          wr = new_recorder w;
          (out, wr', wd') = next (recorder_methods m) r wr wd
      in case out of
           Panicked e \<Rightarrow> (Panicked e, ResponseWriter wr', wd')
         | Returned \<Rightarrow>
             (Returned, ResponseWriter wr',
              slog_emit (Log_accessed (clock wd' - start) (Method r) (Path r) (RawQuery r)
                 (RemoteAddr r) (status wr') (sint (numBytes wr'))) wd'))"

subsection \<open>recovery\<close>

text \<open>
  The deferred function of \<^verbatim>\<open>recovery\<close>, run when \<^verbatim>\<open>next.ServeHTTP(&wr, r)\<close> has
  ended with \<open>out\<close>; \<open>wr\<close> is the recorder of \<^verbatim>\<open>recovery\<close> at that moment and holds
  the state of \<^verbatim>\<open>w\<close>. \<^verbatim>\<open>http.Error\<close> is called on \<^verbatim>\<open>w\<close> with the methods of \<^verbatim>\<open>w\<close>,
  not on \<^verbatim>\<open>&wr\<close>.
  \<^verbatim>\<open>
  if err := recover(); err != nil {
      if err == http.ErrAbortHandler { return }
      stack := make([]byte, 1024)
      n := runtime.Stack(stack, true)
      slog.ErrorContext(r.Context(), "panic!", ...)
      if wr.status == 0 { http.Error(w, fmt.Sprintf("%v", err), 500) }
  }
  \<close>
\<close>

definition recovery_deferred ::
  "'w writer_methods \<Rightarrow> request \<Rightarrow> outcome \<Rightarrow> 'w responseRecorder \<Rightarrow> world \<Rightarrow>
     'w responseRecorder \<times> world" where
  "recovery_deferred m r out wr wd =
     (case out of
        Returned \<Rightarrow> (wr, wd)
      | Panicked err \<Rightarrow>
          if err = ErrAbortHandler then (wr, wd)
          else
            let stack = take 1024 (stacks wd);
                wd1 = slog_emit (Log_panic (Sprintf_v err) stack (Method r) (Path r)
                        (RawQuery r) (RemoteAddr r)) wd
            in if status wr = 0
               then (wr\<lparr>ResponseWriter := http_Error m (ResponseWriter wr) (Sprintf_v err) 500\<rparr>, wd1)
               else (wr, wd1))"

text \<open>
  \<^verbatim>\<open>
  wr := responseRecorder{ResponseWriter: w}
  defer func() { ... }()
  next.ServeHTTP(&wr, r)
  \<close>
  The deferred function recovers every panic, so the handler always returns.
\<close>

definition recovery :: "'w responseRecorder handler \<Rightarrow> 'w handler" where
  "recovery next m r w wd =
     (let wr = new_recorder w;
          (out, wr1, wd1) = next (recorder_methods m) r wr wd;
          (wr2, wd2) = recovery_deferred m r out wr1 wd1
      in (Returned, ResponseWriter wr2, wd2))"

subsection \<open>route\<close>

text \<open>
  \<^verbatim>\<open>
  handler := accesslog(mux)
  handler = recovery(handler)
  \<close>
  \<open>mux\<close> is the \<^verbatim>\<open>http.ServeMux\<close> holding the three routes, or whichever handler it
  dispatches the request to.
\<close>

definition route :: "'w responseRecorder responseRecorder handler \<Rightarrow> 'w handler" where
  "route mux = recovery (accesslog mux)"

subsection \<open>The response writer of the server\<close>

text \<open>
  The writer that \<^verbatim>\<open>net/http\<close> hands to the outermost handler, on a connection that
  accepts what is written to it: the first \<^verbatim>\<open>WriteHeader\<close> fixes the status and the
  headers sent, later calls are ignored; a \<^verbatim>\<open>Write\<close> before any \<^verbatim>\<open>WriteHeader\<close> sends
  status 200 first; a status of class 1xx, 204 or 304 allows no body; the body of the
  answer to a \<^verbatim>\<open>HEAD\<close> request is accepted and dropped. \<open>req_method\<close> is the method of
  the request being answered. Only final status codes are covered (the statements below
  use 200, 201, 404 and 500): interim 1xx responses and the panic of \<^verbatim>\<open>WriteHeader\<close> on a
  code outside 100..999 are left out, and so are a declared \<^verbatim>\<open>Content-Length\<close> and
  writes on a connection that has failed.
\<close>

record response =
  handlerHeader :: header
  wroteHeader :: bool
  sent_status :: int
  sent_header :: header
  sent_body :: bytes
  req_method :: string

definition response_WriteHeader :: "int \<Rightarrow> response \<Rightarrow> response" where
  "response_WriteHeader c w =
     (if wroteHeader w then w
      else w\<lparr>wroteHeader := True, sent_status := c, sent_header := handlerHeader w\<rparr>)"

definition bodyAllowedForStatus :: "int \<Rightarrow> bool" where
  "bodyAllowedForStatus s = (\<not> (100 \<le> s \<and> s \<le> 199) \<and> s \<noteq> 204 \<and> s \<noteq> 304)"

definition response_Write :: "bytes \<Rightarrow> response \<Rightarrow> (int \<times> go_error) \<times> response" where
  "response_Write b w =
     (let w1 = (if wroteHeader w then w else response_WriteHeader 200 w)
      in if b = [] then ((0, None), w1)
         else if \<not> bodyAllowedForStatus (sent_status w1)
         then ((0, Some ''http: request method or response status code does not allow body''), w1)
         else if req_method w1 = ''HEAD'' then ((int (length b), None), w1)
         else ((int (length b), None), w1\<lparr>sent_body := sent_body w1 @ b\<rparr>))"

definition response_methods :: "response writer_methods" where
  "response_methods =
     \<lparr>Header = handlerHeader,
      Header_put = (\<lambda>h w. w\<lparr>handlerHeader := h\<rparr>),
      Write = response_Write,
      WriteHeader = response_WriteHeader\<rparr>"

text \<open>The writer at the start of a \<^verbatim>\<open>GET\<close> request: nothing set, nothing sent.\<close>

definition new_response :: response where
  "new_response =
     \<lparr>handlerHeader = Map.empty, wroteHeader = False, sent_status = 0,
      sent_header = Map.empty, sent_body = [], req_method = ''GET''\<rparr>"

subsection \<open>A writer that refuses every write\<close>

text \<open>
  An implementation of the interface that keeps nothing and answers every \<^verbatim>\<open>Write\<close> with
  a count of 0 and an error.
\<close>

definition refusing_methods :: "unit writer_methods" where
  "refusing_methods =
     \<lparr>Header = (\<lambda>w. Map.empty),
      Header_put = (\<lambda>h w. w),
      Write = (\<lambda>b w. ((0, Some ''broken pipe''), w)),
      WriteHeader = (\<lambda>c w. w)\<rparr>"

subsection \<open>The calls the handlers make\<close>

text \<open>
  The handlers of the source written as sequences of calls on their writer; each is
  proved equal to the handler it describes (\<open>http_Error_calls\<close>,
  \<open>handleGetOpenapi_calls\<close>, \<open>handleGetHealth_calls\<close>).
\<close>

definition error_calls :: "string \<Rightarrow> int \<Rightarrow> call list" where
  "error_calls msg c =
     [Call_Header_Del ''Content-Length'',
      Call_Header_Set ''Content-Type'' ''text/plain; charset=utf-8'',
      Call_Header_Set ''X-Content-Type-Options'' ''nosniff'',
      Call_WriteHeader c,
      Call_Write (msg @ [CHR 0x0A])]"

definition openapi_calls :: "bytes \<Rightarrow> call list" where
  "openapi_calls openapi =
     [Call_Header_Set ''Content-Type'' ''text/plain'',
      Call_Header_Set ''Access-Control-Allow-Origin'' ''*'',
      Call_WriteHeader 200,
      Call_Write openapi]"

text \<open>The calls of the health handler up to and including \<^verbatim>\<open>Encode\<close>.\<close>

definition health_try :: "string + bytes \<Rightarrow> call list" where
  "health_try marshalled =
     [Call_Header_Set ''Content-Type'' ''application/json'', Call_WriteHeader 200] @
     (case marshalled of Inl e \<Rightarrow> [] | Inr b \<Rightarrow> [Call_Write (b @ [CHR 0x0A])])"

text \<open>The error of \<^verbatim>\<open>Encode\<close>, from the answers to those calls.\<close>

definition encode_error :: "string + bytes \<Rightarrow> reply list \<Rightarrow> go_error" where
  "encode_error marshalled rs =
     (case marshalled of
        Inl e \<Rightarrow> Some e
      | Inr b \<Rightarrow> (case last rs of Reply_Write n err \<Rightarrow> err | Reply_none \<Rightarrow> None))"

definition health_calls :: "string + bytes \<Rightarrow> reply list \<Rightarrow> call list" where
  "health_calls marshalled rs =
     health_try marshalled @
     (case encode_error marshalled rs of None \<Rightarrow> [] | Some e \<Rightarrow> error_calls e 500)"

subsection \<open>A concrete request and initial state\<close>

definition example_request :: request where
  "example_request =
     \<lparr>Method = ''GET'', Path = ''/health'', RawQuery = [], RemoteAddr = ''127.0.0.1:40000''\<rparr>"

definition example_world :: world where
  "example_world = \<lparr>slog = [], clock = 0, stacks = ''goroutine 1 [running]:''\<rparr>"

definition example_body :: "nat responseBody" where
  "example_body = \<lparr>Version = ''v1.0.0'', Revision = ''abc'', Time = 4, Modified = True\<rparr>"

section \<open>Properties of responseRecorder\<close>

text \<open>Unfolding the server's writer, and the recorder, on concrete inputs.\<close>

lemmas response_simps =
  response_methods_def response_Write_def response_WriteHeader_def bodyAllowedForStatus_def
  new_response_def Header_Set_def Header_Del_def

lemmas recorder_simps =
  recorder_methods_def responseRecorder_Header_def responseRecorder_Header_put_def
  responseRecorder_Write_def responseRecorder_WriteHeader_def new_recorder_def

lemma recorder_do_call:
  "do_call (recorder_methods und) c re =
     (fst (do_call und c (ResponseWriter re)),
      \<lparr>ResponseWriter = snd (do_call und c (ResponseWriter re)),
       status = (case c of Call_WriteHeader s \<Rightarrow> s | _ \<Rightarrow> status re),
       numBytes = (case c of Call_Write b \<Rightarrow> numBytes re + of_nat (length b) | _ \<Rightarrow> numBytes re)\<rparr>)"
  by (cases c)
     (simp_all add: recorder_methods_def Header_Set_def Header_Del_def
        responseRecorder_Header_def responseRecorder_Header_put_def
        responseRecorder_Write_def responseRecorder_WriteHeader_def
        Let_def split: prod.splits)

text \<open>
  A sequence of calls made on a recorder reaches the writer underneath unchanged and is
  answered by it; the recorder keeps the last code passed to \<^verbatim>\<open>WriteHeader\<close> and adds
  up the lengths of the slices passed to \<^verbatim>\<open>Write\<close>.
\<close>

lemma recorder_do_calls:
  "do_calls (recorder_methods und) cs re =
     (fst (do_calls und cs (ResponseWriter re)),
      \<lparr>ResponseWriter = snd (do_calls und cs (ResponseWriter re)),
       status = (if statuses cs = [] then status re else last (statuses cs)),
       numBytes = numBytes re + of_nat (sum_list (map length (written cs)))\<rparr>)"
proof (induction cs arbitrary: re)
  case Nil
  show ?case by simp
next
  case (Cons c cs)
  show ?case
    by (cases c) (simp_all add: recorder_do_call Cons.IH split: prod.splits del: do_call.simps)
qed

lemma sint_of_nat_small:
  assumes "n < 2 ^ 63"
  shows "sint (of_nat n :: go_int) = int n"
proof -
  have "sint (of_nat n :: go_int) = sint (word_of_int (int n) :: go_int)"
    by simp
  also have "\<dots> = signed_take_bit 63 (int n)"
    by (simp only: sint_sbintrunc') simp
  also have "\<dots> = int n"
  proof (rule signed_take_bit_int_eq_self)
    show "- (2 ^ 63) \<le> int n" by simp
    have "int n < int (2 ^ 63)" using assms by (simp only: of_nat_less_iff)
    then show "int n < 2 ^ 63" by simp
  qed
  finally show ?thesis .
qed

text \<open>
  Claim C3. Each \<^verbatim>\<open>Write\<close> on a recorder returns exactly the count and error of the
  writer underneath, whatever they are (a short or failed write included), and adds
  \<^verbatim>\<open>len(b)\<close> to \<^verbatim>\<open>numBytes\<close>. Over any sequence of calls made on the recorder in one
  request, the answers are those of the writer underneath and \<^verbatim>\<open>numBytes\<close> grows by the sum
  of the lengths passed to \<^verbatim>\<open>Write\<close>, computed in Go's \<^verbatim>\<open>int\<close>; for a recorder created for
  the request, whose total stays below \<open>2 ^ 63\<close>, the value read is that sum as a number.
\<close>

theorem recorder_counts_bytes:
  "fst (responseRecorder_Write und b re) = fst (Write und b (ResponseWriter re))
   \<and> numBytes (snd (responseRecorder_Write und b re)) = numBytes re + of_nat (length b)
   \<and> fst (do_calls (recorder_methods und) cs re) = fst (do_calls und cs (ResponseWriter re))
   \<and> numBytes (snd (do_calls (recorder_methods und) cs re))
       = numBytes re + of_nat (sum_list (map length (written cs)))
   \<and> (sum_list (map length (written cs)) < 2 ^ 63 \<longrightarrow>
        sint (numBytes (snd (do_calls (recorder_methods und) cs (new_recorder w))))
          = int (sum_list (map length (written cs))))"
proof -
  have 1: "fst (responseRecorder_Write und b re) = fst (Write und b (ResponseWriter re))"
    by (simp add: responseRecorder_Write_def Let_def split: prod.splits)
  have 2: "numBytes (snd (responseRecorder_Write und b re)) = numBytes re + of_nat (length b)"
    by (simp add: responseRecorder_Write_def Let_def split: prod.splits)
  have 3: "fst (do_calls (recorder_methods und) cs re) = fst (do_calls und cs (ResponseWriter re))"
    by (simp add: recorder_do_calls)
  have 4: "numBytes (snd (do_calls (recorder_methods und) cs re))
       = numBytes re + of_nat (sum_list (map length (written cs)))"
    by (simp add: recorder_do_calls)
  have 5: "sum_list (map length (written cs)) < 2 ^ 63 \<longrightarrow>
        sint (numBytes (snd (do_calls (recorder_methods und) cs (new_recorder w))))
          = int (sum_list (map length (written cs)))"
    by (simp add: recorder_do_calls new_recorder_def sint_of_nat_small)
  from 1 2 3 4 5 show ?thesis by blast
qed

text \<open>
  At a concrete input: two writes of 2 and 3 bytes on a writer that refuses every write
  still count 5 bytes.
\<close>

theorem recorder_counts_bytes_witness:
  "sum_list (map length (written [Call_Write ''ab'', Call_WriteHeader 200, Call_Write ''cde'']))
     < (2::nat) ^ 63
   \<and> sint (numBytes (snd (do_calls (recorder_methods refusing_methods)
        [Call_Write ''ab'', Call_WriteHeader 200, Call_Write ''cde'']
        (new_recorder ())))) = 5
   \<and> fst (do_calls (recorder_methods refusing_methods)
        [Call_Write ''ab'', Call_WriteHeader 200, Call_Write ''cde'']
        (new_recorder ()))
      = [Reply_Write 0 (Some ''broken pipe''), Reply_none, Reply_Write 0 (Some ''broken pipe'')]"
  using recorder_counts_bytes
    [where und = refusing_methods
       and cs = "[Call_Write ''ab'', Call_WriteHeader 200, Call_Write ''cde'']"
       and w = "()"
       and re = "new_recorder ()"]
  by (simp add: new_recorder_def refusing_methods_def)

text \<open>
  Two recorders stacked as in \<^verbatim>\<open>recovery(accesslog(mux))\<close>: every \<^verbatim>\<open>WriteHeader\<close> made on
  the upper one reaches the lower one, so both show the same status.
\<close>

lemma nested_recorders_agree:
  "status (ResponseWriter (snd (do_calls (recorder_methods (recorder_methods und)) cs
      (new_recorder (new_recorder w)))))
   = status (snd (do_calls (recorder_methods (recorder_methods und)) cs
      (new_recorder (new_recorder w))))"
  by (simp add: recorder_do_calls new_recorder_def)

text \<open>
  Claim C4 (as amended). Every \<^verbatim>\<open>WriteHeader\<close> on a recorder stores the code passed and
  hands the call to the writer underneath; there is no guard, so after a sequence of calls
  containing at least one \<^verbatim>\<open>WriteHeader\<close> the field holds the code of the last one.
\<close>

theorem recorder_status_is_last:
  assumes "statuses cs \<noteq> []"
  shows "status (snd (do_calls (recorder_methods und) cs re)) = last (statuses cs)
       \<and> ResponseWriter (snd (do_calls (recorder_methods und) cs re))
           = snd (do_calls und cs (ResponseWriter re))
       \<and> status (responseRecorder_WriteHeader und c re) = c
       \<and> ResponseWriter (responseRecorder_WriteHeader und c re)
           = WriteHeader und c (ResponseWriter re)"
  using assms by (simp add: recorder_do_calls responseRecorder_WriteHeader_def Let_def)

theorem recorder_status_is_last_witness:
  "statuses [Call_WriteHeader 404, Call_Write ''gone'', Call_WriteHeader 200] \<noteq> []
   \<and> status (snd (do_calls (recorder_methods response_methods)
        [Call_WriteHeader 404, Call_Write ''gone'', Call_WriteHeader 200]
        (new_recorder new_response))) = 200"
  using recorder_status_is_last
    [where cs = "[Call_WriteHeader 404, Call_Write ''gone'', Call_WriteHeader 200]"
       and und = response_methods and re = "new_recorder new_response"]
  by simp

text \<open>
  Claim C4 as stated fails: a second \<^verbatim>\<open>WriteHeader\<close> replaces the recorded status, while
  the server's writer keeps the first.
\<close>

theorem recorder_status_overwritten:
  "status (snd (do_calls (recorder_methods response_methods) [Call_WriteHeader 200]
      (new_recorder new_response))) = 200
   \<and> status (snd (do_calls (recorder_methods response_methods)
      [Call_WriteHeader 200, Call_WriteHeader 500] (new_recorder new_response))) = 500
   \<and> sent_status (ResponseWriter (snd (do_calls (recorder_methods response_methods)
      [Call_WriteHeader 200, Call_WriteHeader 500] (new_recorder new_response)))) = 200"
  by (simp add: recorder_simps response_simps Let_def)

section \<open>Properties of the handlers\<close>

lemma http_Error_calls:
  "http_Error m w msg c = snd (do_calls m (error_calls msg c) w)"
  by (simp add: http_Error_def error_calls_def Let_def split: prod.splits)

lemma do_calls_append:
  "do_calls m (cs @ ds) w =
     (fst (do_calls m cs w) @ fst (do_calls m ds (snd (do_calls m cs w))),
      snd (do_calls m ds (snd (do_calls m cs w))))"
  by (induction cs arbitrary: w) (simp_all split: prod.splits)

text \<open>\<^verbatim>\<open>http.Error\<close> with code 500 on a server writer that has sent nothing yet.\<close>

lemma http_Error_response:
  assumes "\<not> wroteHeader w" and "req_method w \<noteq> ''HEAD''"
  shows "sent_status (http_Error response_methods w msg 500) = 500
       \<and> sent_body (http_Error response_methods w msg 500) = sent_body w @ msg @ [CHR 0x0A]
       \<and> sent_header (http_Error response_methods w msg 500) ''Content-Type''
            = Some ''text/plain; charset=utf-8''"
  using assms
  by (simp add: http_Error_def Let_def response_methods_def Header_Set_def Header_Del_def
        response_Write_def response_WriteHeader_def bodyAllowedForStatus_def)

lemma http_Error_recorder:
  "http_Error (recorder_methods m) wr msg c =
     \<lparr>ResponseWriter = http_Error m (ResponseWriter wr) msg c,
      status = c,
      numBytes = numBytes wr + of_nat (length msg + 1)\<rparr>"
  by (simp only: http_Error_calls recorder_do_calls) (simp add: error_calls_def)

lemma handleGetOpenapi_calls:
  "handleGetOpenapi openapi m r w wd =
     (Returned, snd (do_calls m (openapi_calls openapi) w),
      case last (fst (do_calls m (openapi_calls openapi) w)) of
        Reply_Write n (Some e) \<Rightarrow> slog_emit (Log_openapi_write_failed e) wd
      | _ \<Rightarrow> wd)"
  by (simp add: handleGetOpenapi_def openapi_calls_def Let_def split: prod.splits option.splits)

lemma handleGetHealth_calls:
  "handleGetHealth marshal res m r w wd =
     (Returned,
      snd (do_calls m (health_calls (marshal res) (fst (do_calls m (health_try (marshal res)) w))) w),
      wd)"
proof (cases "marshal res")
  case (Inl e)
  then show ?thesis
    by (simp add: handleGetHealth_def json_Encode_def health_calls_def health_try_def
          encode_error_def http_Error_calls do_calls_append Let_def split: prod.splits)
next
  case (Inr b)
  obtain n err w' where
    W: "Write m (b @ [CHR 0x0A])
          (WriteHeader m 200 (Header_Set m ''Content-Type'' ''application/json'' w))
          = ((n, err), w')"
    by (metis prod.exhaust)
  show ?thesis
  proof (cases err)
    case None
    with Inr W show ?thesis
      by (simp add: handleGetHealth_def json_Encode_def health_calls_def health_try_def
            encode_error_def Let_def)
  next
    case (Some e)
    with Inr W show ?thesis
      by (simp add: handleGetHealth_def json_Encode_def health_calls_def health_try_def
            encode_error_def http_Error_calls do_calls_append Let_def split: prod.splits)
  qed
qed

section \<open>Properties of the middleware chain\<close>

lemma route_Returned:
  assumes "mux (recorder_methods (recorder_methods m)) r (new_recorder (new_recorder w)) wd
             = (Returned, wr, wd')"
  shows "route mux m r w wd =
    (Returned, ResponseWriter (ResponseWriter wr),
     slog_emit (Log_accessed (clock wd' - clock wd) (Method r) (Path r) (RawQuery r)
        (RemoteAddr r) (status wr) (sint (numBytes wr))) wd')"
  using assms by (simp add: route_def recovery_def recovery_deferred_def accesslog_def Let_def)

lemma route_Panicked:
  assumes "mux (recorder_methods (recorder_methods m)) r (new_recorder (new_recorder w)) wd
             = (Panicked e, wr, wd')"
  shows "route mux m r w wd =
    (Returned, ResponseWriter (fst (recovery_deferred m r (Panicked e) (ResponseWriter wr) wd')),
     snd (recovery_deferred m r (Panicked e) (ResponseWriter wr) wd'))"
  using assms
  by (simp add: route_def recovery_def accesslog_def Let_def split: prod.splits)

text \<open>
  Claim C1 (as amended). \<^verbatim>\<open>accesslog\<close> emits its line with a plain statement after the
  call of the next handler, not with a deferred one. Through the whole chain: when the
  handler returns, exactly one access-log line is appended to what the handler left in
  the log, carrying the status and byte count of the recorder; when the handler panics,
  no access-log line is appended (only the panic line of \<^verbatim>\<open>recovery\<close>, and nothing at all
  for the abort sentinel).
\<close>

theorem accesslog_line_only_on_return:
  assumes "mux (recorder_methods (recorder_methods m)) r (new_recorder (new_recorder w)) wd
             = (out, wr, wd')"
  shows "slog (snd (snd (route mux m r w wd))) =
           slog wd' @
           (case out of
              Returned \<Rightarrow>
                [Log_accessed (clock wd' - clock wd) (Method r) (Path r) (RawQuery r)
                   (RemoteAddr r) (status wr) (sint (numBytes wr))]
            | Panicked e \<Rightarrow>
                if e = ErrAbortHandler then []
                else [Log_panic (Sprintf_v e) (take 1024 (stacks wd')) (Method r) (Path r)
                        (RawQuery r) (RemoteAddr r)])
       \<and> access_lines (slog (snd (snd (route mux m r w wd))))
           = access_lines (slog wd') + (if out = Returned then 1 else 0)"
proof (cases out)
  case Returned
  with assms have "route mux m r w wd =
    (Returned, ResponseWriter (ResponseWriter wr),
     slog_emit (Log_accessed (clock wd' - clock wd) (Method r) (Path r) (RawQuery r)
        (RemoteAddr r) (status wr) (sint (numBytes wr))) wd')"
    by (simp add: route_Returned)
  with Returned show ?thesis
    by (simp add: slog_emit_def access_lines_def)
next
  case (Panicked e)
  with assms have "route mux m r w wd =
    (Returned, ResponseWriter (fst (recovery_deferred m r (Panicked e) (ResponseWriter wr) wd')),
     snd (recovery_deferred m r (Panicked e) (ResponseWriter wr) wd'))"
    by (simp add: route_Panicked)
  with Panicked show ?thesis
    by (simp add: recovery_deferred_def slog_emit_def access_lines_def Let_def)
qed

text \<open>A handler that writes a status and two bytes and returns: one access-log line.\<close>

theorem accesslog_line_only_on_return_witness:
  "scripted [Call_WriteHeader 200, Call_Write ''ok''] Returned
      (recorder_methods (recorder_methods response_methods)) example_request
      (new_recorder (new_recorder new_response)) example_world
     = (Returned,
        snd (do_calls (recorder_methods (recorder_methods response_methods))
               [Call_WriteHeader 200, Call_Write ''ok''] (new_recorder (new_recorder new_response))),
        example_world)
   \<and> slog (snd (snd (route (scripted [Call_WriteHeader 200, Call_Write ''ok''] Returned)
        response_methods example_request new_response example_world)))
     = [Log_accessed 0 ''GET'' ''/health'' [] ''127.0.0.1:40000'' 200 2]
   \<and> access_lines (slog (snd (snd (route (scripted [Call_WriteHeader 200, Call_Write ''ok''] Returned)
        response_methods example_request new_response example_world)))) = 1"
proof -
  let ?cs = "[Call_WriteHeader 200, Call_Write ''ok'']"
  let ?wr = "snd (do_calls (recorder_methods (recorder_methods response_methods)) ?cs
               (new_recorder (new_recorder new_response)))"
  have h: "scripted ?cs Returned (recorder_methods (recorder_methods response_methods))
             example_request (new_recorder (new_recorder new_response)) example_world
           = (Returned, ?wr, example_world)"
    by (simp only: scripted_def)
  have s: "status ?wr = 200" and n: "numBytes ?wr = 2"
    by (simp_all add: recorder_simps Let_def split: prod.splits)
  from accesslog_line_only_on_return
         [of "scripted ?cs Returned" response_methods example_request new_response
             example_world Returned ?wr example_world, OF h]
  show ?thesis
    using h s n by (simp add: example_world_def example_request_def access_lines_def)
qed

text \<open>
  Claim C1 as stated fails: a request whose handler panics with \<^verbatim>\<open>"boom"\<close> leaves no
  access-log line.
\<close>

theorem panic_leaves_no_access_line:
  "access_lines (slog (snd (snd (route (scripted [] (Panicked (PanicOther ''boom'')))
      response_methods example_request new_response example_world)))) = 0"
  by (simp add: route_def recovery_def recovery_deferred_def accesslog_def scripted_def
        slog_emit_def access_lines_def example_world_def Let_def)

text \<open>
  Claim C8. When the next handler panics with \<^verbatim>\<open>http.ErrAbortHandler\<close>, \<^verbatim>\<open>recovery\<close>
  returns normally and leaves the log and the writer exactly as the handler left them:
  no error line (so no stack trace in it) and no 500 response.
\<close>

theorem recovery_swallows_abort:
  assumes "next (recorder_methods m) r (new_recorder w) wd = (Panicked ErrAbortHandler, wr, wd')"
  shows "recovery next m r w wd = (Returned, ResponseWriter wr, wd')"
  using assms by (simp add: recovery_def recovery_deferred_def Let_def)

theorem recovery_swallows_abort_witness:
  "scripted [Call_Write ''partial''] (Panicked ErrAbortHandler) (recorder_methods response_methods)
      example_request (new_recorder new_response) example_world
     = (Panicked ErrAbortHandler,
        snd (do_calls (recorder_methods response_methods) [Call_Write ''partial'']
               (new_recorder new_response)),
        example_world)
   \<and> snd (snd (recovery (scripted [Call_Write ''partial''] (Panicked ErrAbortHandler))
        response_methods example_request new_response example_world)) = example_world
   \<and> sent_body (fst (snd (recovery (scripted [Call_Write ''partial''] (Panicked ErrAbortHandler))
        response_methods example_request new_response example_world))) = ''partial''"
proof -
  let ?wr = "snd (do_calls (recorder_methods response_methods) [Call_Write ''partial'']
               (new_recorder new_response))"
  have h: "scripted [Call_Write ''partial''] (Panicked ErrAbortHandler)
             (recorder_methods response_methods) example_request (new_recorder new_response)
             example_world
           = (Panicked ErrAbortHandler, ?wr, example_world)"
    by (simp only: scripted_def)
  have b: "sent_body (ResponseWriter ?wr) = ''partial''"
    by (simp add: recorder_simps response_simps Let_def)
  from recovery_swallows_abort
         [of "scripted [Call_Write ''partial''] (Panicked ErrAbortHandler)" response_methods
             example_request new_response example_world ?wr example_world, OF h]
  show ?thesis using h b by simp
qed

text \<open>
  What \<^verbatim>\<open>recovery\<close> does on a panic other than the abort sentinel, in terms of its
  recorder: it returns normally; if the recorder shows no status (\<^verbatim>\<open>wr.status == 0\<close>) it
  calls \<^verbatim>\<open>http.Error\<close> on the original writer with the \<^verbatim>\<open>%v\<close> form of the panic value and
  code 500; if the recorder shows a status, the writer stays as the handler left it. In
  both cases the status field of the recorder stays what it was.
\<close>

lemma recovery_on_panic:
  assumes "next (recorder_methods m) r (new_recorder w) wd = (Panicked err, wr, wd')"
    and "err \<noteq> ErrAbortHandler"
  shows "fst (recovery next m r w wd) = Returned
       \<and> fst (snd (recovery next m r w wd))
           = (if status wr = 0 then http_Error m (ResponseWriter wr) (Sprintf_v err) 500
              else ResponseWriter wr)
       \<and> http_Error m (ResponseWriter wr) (Sprintf_v err) 500
           = snd (do_calls m
                   [Call_Header_Del ''Content-Length'',
                    Call_Header_Set ''Content-Type'' ''text/plain; charset=utf-8'',
                    Call_Header_Set ''X-Content-Type-Options'' ''nosniff'',
                    Call_WriteHeader 500,
                    Call_Write (Sprintf_v err @ [CHR 0x0A])] (ResponseWriter wr))
       \<and> status (fst (recovery_deferred m r (Panicked err) wr wd')) = status wr"
proof -
  have 1: "fst (recovery next m r w wd) = Returned"
    by (simp add: recovery_def Let_def split: prod.splits)
  have 2: "fst (snd (recovery next m r w wd))
           = (if status wr = 0 then http_Error m (ResponseWriter wr) (Sprintf_v err) 500
              else ResponseWriter wr)"
    using assms by (simp add: recovery_def recovery_deferred_def Let_def)
  have 3: "http_Error m (ResponseWriter wr) (Sprintf_v err) 500
           = snd (do_calls m
                   [Call_Header_Del ''Content-Length'',
                    Call_Header_Set ''Content-Type'' ''text/plain; charset=utf-8'',
                    Call_Header_Set ''X-Content-Type-Options'' ''nosniff'',
                    Call_WriteHeader 500,
                    Call_Write (Sprintf_v err @ [CHR 0x0A])] (ResponseWriter wr))"
    by (simp only: http_Error_calls error_calls_def)
  have 4: "status (fst (recovery_deferred m r (Panicked err) wr wd')) = status wr"
    by (simp add: recovery_deferred_def Let_def)
  from 1 2 3 4 show ?thesis by blast
qed

text \<open>
  A handler that panics with \<^verbatim>\<open>"boom"\<close> before writing anything: the client gets a 500
  with the text and a line feed. A handler that panics after \<^verbatim>\<open>WriteHeader(201)\<close> and a
  write: the response stays as it was.
\<close>

lemma recovery_on_panic_examples:
  "PanicOther ''boom'' \<noteq> ErrAbortHandler
   \<and> sent_status (fst (snd (recovery (scripted [] (Panicked (PanicOther ''boom'')))
        response_methods example_request new_response example_world))) = 500
   \<and> sent_body (fst (snd (recovery (scripted [] (Panicked (PanicOther ''boom'')))
        response_methods example_request new_response example_world))) = ''boom'' @ [CHR 0x0A]
   \<and> sent_status (fst (snd (recovery
        (scripted [Call_WriteHeader 201, Call_Write ''x''] (Panicked (PanicOther ''boom'')))
        response_methods example_request new_response example_world))) = 201
   \<and> sent_body (fst (snd (recovery
        (scripted [Call_WriteHeader 201, Call_Write ''x''] (Panicked (PanicOther ''boom'')))
        response_methods example_request new_response example_world))) = ''x''"
proof -
  let ?p = "PanicOther ''boom''"
  let ?cs = "[Call_WriteHeader 201, Call_Write ''x'']"
  let ?wr1 = "new_recorder new_response"
  let ?wr2 = "snd (do_calls (recorder_methods response_methods) ?cs (new_recorder new_response))"
  have ne: "?p \<noteq> ErrAbortHandler" by simp
  have h1: "scripted [] (Panicked ?p) (recorder_methods response_methods) example_request
              (new_recorder new_response) example_world = (Panicked ?p, ?wr1, example_world)"
    by (simp add: scripted_def)
  have h2: "scripted ?cs (Panicked ?p) (recorder_methods response_methods) example_request
              (new_recorder new_response) example_world = (Panicked ?p, ?wr2, example_world)"
    by (simp only: scripted_def)
  have s1: "status ?wr1 = 0" by (simp add: new_recorder_def)
  have s2: "status ?wr2 = 201" by (simp add: recorder_simps Let_def split: prod.splits)
  have w1: "ResponseWriter ?wr1 = new_response" by (simp add: new_recorder_def)
  have w2: "sent_status (ResponseWriter ?wr2) = 201 \<and> sent_body (ResponseWriter ?wr2) = ''x''"
    by (simp add: recorder_simps response_simps Let_def)
  have e: "sent_status (http_Error response_methods new_response ''boom'' 500) = 500
           \<and> sent_body (http_Error response_methods new_response ''boom'' 500)
               = ''boom'' @ [CHR 0x0A]"
    by (simp add: http_Error_response new_response_def)
  from recovery_on_panic
         [of "scripted [] (Panicked ?p)" response_methods example_request new_response
             example_world ?p ?wr1 example_world, OF h1 ne]
       recovery_on_panic
         [of "scripted ?cs (Panicked ?p)" response_methods example_request new_response
             example_world ?p ?wr2 example_world, OF h2 ne]
  show ?thesis
    using s1 s2 w1 w2 e by simp
qed

text \<open>
  Claim C2, at a failing input. A handler that writes a byte without calling
  \<^verbatim>\<open>WriteHeader\<close> and then panics with \<^verbatim>\<open>"boom"\<close>: when the panic reaches \<^verbatim>\<open>recovery\<close>, the
  server's writer has already sent status 200 and the byte, while the recorder still
  shows status 0. \<^verbatim>\<open>recovery\<close> then calls \<^verbatim>\<open>http.Error\<close>: the response stays a 200, not a
  500, and the panic text is written after the body already sent.
\<close>

theorem recovery_writes_after_implicit_commit:
  "scripted [Call_Write ''x''] (Panicked (PanicOther ''boom'')) (recorder_methods response_methods)
      example_request (new_recorder new_response) example_world
     = (Panicked (PanicOther ''boom''),
        \<lparr>ResponseWriter =
           \<lparr>handlerHeader = Map.empty, wroteHeader = True, sent_status = 200,
            sent_header = Map.empty, sent_body = ''x'', req_method = ''GET''\<rparr>,
         status = 0, numBytes = 1\<rparr>,
        example_world)
   \<and> sent_status (fst (snd (recovery (scripted [Call_Write ''x''] (Panicked (PanicOther ''boom'')))
        response_methods example_request new_response example_world))) = 200
   \<and> sent_body (fst (snd (recovery (scripted [Call_Write ''x''] (Panicked (PanicOther ''boom'')))
        response_methods example_request new_response example_world)))
       = ''x'' @ ''boom'' @ [CHR 0x0A]
   \<and> map log_error (slog (snd (snd (recovery
        (scripted [Call_Write ''x''] (Panicked (PanicOther ''boom'')))
        response_methods example_request new_response example_world)))) = [''boom'']"
  by (simp add: recovery_def recovery_deferred_def scripted_def slog_emit_def http_Error_def
        example_world_def Let_def recorder_simps response_simps)

text \<open>
  Claim C10. The fallback 500 goes to the original writer with the methods of that
  writer, so the fields of the recorder of \<^verbatim>\<open>recovery\<close> are not touched by it: the status
  stays 0 and the byte count stays what it was. Had the same call been made on the
  recorder, it would have recorded 500 and counted the body.
\<close>

theorem recovery_fallback_bypasses_recorder:
  assumes "err \<noteq> ErrAbortHandler" and "status wr = 0"
  shows "ResponseWriter (fst (recovery_deferred m r (Panicked err) wr wd))
           = http_Error m (ResponseWriter wr) (Sprintf_v err) 500
       \<and> status (fst (recovery_deferred m r (Panicked err) wr wd)) = 0
       \<and> numBytes (fst (recovery_deferred m r (Panicked err) wr wd)) = numBytes wr
       \<and> status (http_Error (recorder_methods m) wr (Sprintf_v err) 500) = 500
       \<and> numBytes (http_Error (recorder_methods m) wr (Sprintf_v err) 500)
           = numBytes wr + of_nat (length (Sprintf_v err) + 1)"
  using assms by (simp add: recovery_deferred_def Let_def http_Error_recorder)

theorem recovery_fallback_bypasses_recorder_witness:
  "PanicOther ''boom'' \<noteq> ErrAbortHandler
   \<and> status \<lparr>ResponseWriter = new_response, status = 0, numBytes = 7\<rparr> = 0
   \<and> numBytes (fst (recovery_deferred response_methods example_request
        (Panicked (PanicOther ''boom''))
        \<lparr>ResponseWriter = new_response, status = 0, numBytes = 7\<rparr> example_world)) = 7
   \<and> status (fst (recovery_deferred response_methods example_request
        (Panicked (PanicOther ''boom''))
        \<lparr>ResponseWriter = new_response, status = 0, numBytes = 7\<rparr> example_world)) = 0
   \<and> sent_status (ResponseWriter (fst (recovery_deferred response_methods example_request
        (Panicked (PanicOther ''boom''))
        \<lparr>ResponseWriter = new_response, status = 0, numBytes = 7\<rparr> example_world))) = 500"
proof -
  have ne: "PanicOther ''boom'' \<noteq> ErrAbortHandler" by simp
  have z: "status \<lparr>ResponseWriter = new_response, status = 0, numBytes = 7\<rparr> = 0" by simp
  have e: "sent_status (http_Error response_methods new_response ''boom'' 500) = 500"
    by (simp add: http_Error_response new_response_def)
  from recovery_fallback_bypasses_recorder
         [of "PanicOther ''boom''" "\<lparr>ResponseWriter = new_response, status = 0, numBytes = 7\<rparr>"
             response_methods example_request example_world, OF ne z]
  show ?thesis using e by simp
qed

section \<open>The responses of the two endpoints\<close>

lemma openapi_on_response:
  "do_calls response_methods (openapi_calls openapi) new_response =
    ([Reply_none, Reply_none, Reply_none, Reply_Write (int (length openapi)) None],
     \<lparr>handlerHeader = [''Content-Type'' \<mapsto> ''text/plain'', ''Access-Control-Allow-Origin'' \<mapsto> ''*''],
      wroteHeader = True, sent_status = 200,
      sent_header = [''Content-Type'' \<mapsto> ''text/plain'', ''Access-Control-Allow-Origin'' \<mapsto> ''*''],
      sent_body = openapi, req_method = ''GET''\<rparr>)"
  by (cases "openapi = []") (simp_all add: openapi_calls_def response_simps)

text \<open>The chain around the OpenAPI handler, over any writer.\<close>

lemma route_openapi:
  "route (handleGetOpenapi openapi) m r w wd =
     (Returned, snd (do_calls m (openapi_calls openapi) w),
      slog_emit (Log_accessed 0 (Method r) (Path r) (RawQuery r) (RemoteAddr r) 200
         (sint (of_nat (length openapi) :: go_int)))
        (case last (fst (do_calls m (openapi_calls openapi) w)) of
           Reply_Write n (Some e) \<Rightarrow> slog_emit (Log_openapi_write_failed e) wd
         | _ \<Rightarrow> wd))"
proof -
  let ?wd' = "case last (fst (do_calls m (openapi_calls openapi) w)) of
           Reply_Write n (Some e) \<Rightarrow> slog_emit (Log_openapi_write_failed e) wd
         | _ \<Rightarrow> wd"
  have c: "clock ?wd' = clock wd"
    by (simp add: slog_emit_def split: reply.splits option.splits)
  have "handleGetOpenapi openapi (recorder_methods (recorder_methods m)) r
          (new_recorder (new_recorder w)) wd =
        (Returned,
         \<lparr>ResponseWriter = \<lparr>ResponseWriter = snd (do_calls m (openapi_calls openapi) w),
             status = 200, numBytes = of_nat (length openapi)\<rparr>,
          status = 200, numBytes = of_nat (length openapi)\<rparr>, ?wd')"
    by (simp only: handleGetOpenapi_calls recorder_do_calls)
       (simp add: new_recorder_def openapi_calls_def)
  from route_Returned[of "handleGetOpenapi openapi" m r w wd, OF this] c show ?thesis by simp
qed

text \<open>
  Claim C6. On the server's writer at the start of a request, the OpenAPI handler, alone
  and inside the middleware chain, sends status 200 with \<^verbatim>\<open>Content-Type: text/plain\<close> and
  \<^verbatim>\<open>Access-Control-Allow-Origin: *\<close>, and the body sent is exactly the embedded bytes.
\<close>

theorem openapi_response:
  "fst (handleGetOpenapi openapi response_methods r new_response wd) = Returned
   \<and> sent_status (fst (snd (handleGetOpenapi openapi response_methods r new_response wd))) = 200
   \<and> sent_header (fst (snd (handleGetOpenapi openapi response_methods r new_response wd)))
        ''Content-Type'' = Some ''text/plain''
   \<and> sent_header (fst (snd (handleGetOpenapi openapi response_methods r new_response wd)))
        ''Access-Control-Allow-Origin'' = Some ''*''
   \<and> sent_body (fst (snd (handleGetOpenapi openapi response_methods r new_response wd))) = openapi
   \<and> fst (snd (route (handleGetOpenapi openapi) response_methods r new_response wd))
        = fst (snd (handleGetOpenapi openapi response_methods r new_response wd))"
  by (simp add: route_openapi handleGetOpenapi_calls openapi_on_response)

lemma statuses_health_calls: "statuses (health_calls mr rs) \<noteq> []"
  by (simp add: health_calls_def health_try_def)

text \<open>The chain around the health handler, over any writer.\<close>

lemma route_health:
  "route (handleGetHealth marshal res) m r w wd =
     (Returned,
      snd (do_calls m (health_calls (marshal res) (fst (do_calls m (health_try (marshal res)) w))) w),
      slog_emit (Log_accessed 0 (Method r) (Path r) (RawQuery r) (RemoteAddr r)
         (last (statuses (health_calls (marshal res) (fst (do_calls m (health_try (marshal res)) w)))))
         (sint (of_nat (sum_list (map length (written
            (health_calls (marshal res) (fst (do_calls m (health_try (marshal res)) w)))))) :: go_int)))
        wd)"
proof -
  let ?cs = "health_calls (marshal res) (fst (do_calls m (health_try (marshal res)) w))"
  have "handleGetHealth marshal res (recorder_methods (recorder_methods m)) r
          (new_recorder (new_recorder w)) wd =
        (Returned,
         \<lparr>ResponseWriter = \<lparr>ResponseWriter = snd (do_calls m ?cs w),
             status = last (statuses ?cs), numBytes = of_nat (sum_list (map length (written ?cs)))\<rparr>,
          status = last (statuses ?cs), numBytes = of_nat (sum_list (map length (written ?cs)))\<rparr>, wd)"
    by (simp only: handleGetHealth_calls recorder_do_calls)
       (simp add: new_recorder_def statuses_health_calls)
  from route_Returned[of "handleGetHealth marshal res" m r w wd, OF this] show ?thesis by simp
qed

lemma health_ok_on_response:
  "do_calls response_methods (health_try (Inr b)) new_response =
     ([Reply_none, Reply_none, Reply_Write (int (length b) + 1) None],
     \<lparr>handlerHeader = [''Content-Type'' \<mapsto> ''application/json''], wroteHeader = True,
      sent_status = 200, sent_header = [''Content-Type'' \<mapsto> ''application/json''],
      sent_body = b @ [CHR 0x0A], req_method = ''GET''\<rparr>)"
  by (simp add: health_try_def response_simps)

lemma health_calls_ok:
  "health_calls (Inr b) [Reply_none, Reply_none, Reply_Write n None] = health_try (Inr b)"
  by (simp add: health_calls_def encode_error_def)

text \<open>
  Claim C5. The closure returned by \<^verbatim>\<open>handleGetHealth()\<close> serves the value \<^verbatim>\<open>res\<close> that
  was built once, when the handler was made (\<open>health_body\<close>), and does not depend on the
  request. When that value marshals to the bytes \<open>b\<close>, every request on a fresh writer of
  the server, alone or inside the middleware chain, gets status 200, \<^verbatim>\<open>Content-Type:
  application/json\<close> and the body \<open>b\<close> followed by a line feed: two requests get the same
  bytes.
\<close>

theorem health_same_body:
  assumes "marshal res = Inr b"
  shows "sent_status (fst (snd (route (handleGetHealth marshal res) response_methods r1 new_response wd1))) = 200
   \<and> sent_header (fst (snd (route (handleGetHealth marshal res) response_methods r1 new_response wd1)))
        ''Content-Type'' = Some ''application/json''
   \<and> sent_body (fst (snd (route (handleGetHealth marshal res) response_methods r1 new_response wd1)))
        = b @ [CHR 0x0A]
   \<and> sent_body (fst (snd (route (handleGetHealth marshal res) response_methods r1 new_response wd1)))
        = sent_body (fst (snd (route (handleGetHealth marshal res) response_methods r2 new_response wd2)))
   \<and> fst (snd (handleGetHealth marshal res response_methods r1 new_response wd1))
        = fst (snd (route (handleGetHealth marshal res) response_methods r1 new_response wd1))"
  by (simp add: route_health handleGetHealth_calls assms health_ok_on_response health_calls_ok)

text \<open>
  With the build settings of a tagged, modified checkout and a marshaller that
  concatenates two fields.
\<close>

theorem health_same_body_witness:
  "health_body ''v1.0.0'' (0::nat) length
      (Some [(''vcs.revision'', ''abc''), (''vcs.time'', ''2024''), (''vcs.modified'', ''true''),
             (''-buildmode'', ''exe''), (''vcs.time'', [])]) = Inr example_body
   \<and> (\<lambda>res. Inr (Version res @ Revision res) :: string + bytes) example_body = Inr ''v1.0.0abc''
   \<and> sent_status (fst (snd (route (handleGetHealth (\<lambda>res. Inr (Version res @ Revision res)) example_body)
        response_methods example_request new_response example_world))) = 200
   \<and> sent_body (fst (snd (route (handleGetHealth (\<lambda>res. Inr (Version res @ Revision res)) example_body)
        response_methods example_request new_response example_world))) = ''v1.0.0abc'' @ [CHR 0x0A]"
proof -
  have h: "(\<lambda>res. Inr (Version res @ Revision res) :: string + bytes) example_body = Inr ''v1.0.0abc''"
    by (simp add: example_body_def)
  have c: "health_body ''v1.0.0'' (0::nat) length
      (Some [(''vcs.revision'', ''abc''), (''vcs.time'', ''2024''), (''vcs.modified'', ''true''),
             (''-buildmode'', ''exe''), (''vcs.time'', [])]) = Inr example_body"
    by (simp add: health_body_def example_body_def)
  from health_same_body
         [of "\<lambda>res. Inr (Version res @ Revision res)" example_body "''v1.0.0abc''"
             example_request example_world example_request example_world, OF h]
  show ?thesis using h c by simp
qed

text \<open>
  The error branch of the health handler. \<^verbatim>\<open>Encode\<close> comes after \<^verbatim>\<open>w.WriteHeader(200)\<close>,
  so \<^verbatim>\<open>http.Error(w, err.Error(), 500)\<close> would reach a writer that has sent its status: it
  would keep 200 and \<^verbatim>\<open>application/json\<close>, and the error text would follow as the body.
  On the server's writer the branch is not taken: once the value is marshalled, \<^verbatim>\<open>Encode\<close>
  returns no error there.
\<close>

lemma json_Encode_on_response:
  assumes "wroteHeader w" and "bodyAllowedForStatus (sent_status w)"
  shows "fst (json_Encode response_methods (Inr b) w) = None"
  using assms by (simp add: json_Encode_def response_methods_def response_Write_def)

lemma health_marshal_error_on_response:
  "do_calls response_methods (health_calls (Inl e) rs) new_response =
     ([Reply_none, Reply_none, Reply_none, Reply_none, Reply_none, Reply_none,
       Reply_Write (int (length e) + 1) None],
     \<lparr>handlerHeader = [''Content-Type'' \<mapsto> ''text/plain; charset=utf-8'',
         ''X-Content-Type-Options'' \<mapsto> ''nosniff''], wroteHeader = True,
      sent_status = 200, sent_header = [''Content-Type'' \<mapsto> ''application/json''],
      sent_body = e @ [CHR 0x0A], req_method = ''GET''\<rparr>)"
  by (simp add: health_calls_def health_try_def encode_error_def error_calls_def response_simps)

lemma health_error_branch_after_commit:
  assumes "marshal res = Inl e"
  shows "fst (snd (route (handleGetHealth marshal res) response_methods r new_response wd)) =
     \<lparr>handlerHeader = [''Content-Type'' \<mapsto> ''text/plain; charset=utf-8'',
         ''X-Content-Type-Options'' \<mapsto> ''nosniff''], wroteHeader = True,
      sent_status = 200, sent_header = [''Content-Type'' \<mapsto> ''application/json''],
      sent_body = e @ [CHR 0x0A], req_method = ''GET''\<rparr>"
  using assms by (simp add: route_health health_marshal_error_on_response)

text \<open>
  Claim C9, at a failing input. A handler that writes a byte without calling
  \<^verbatim>\<open>WriteHeader\<close> and then panics: the server's writer has sent status 200, but no
  \<^verbatim>\<open>WriteHeader\<close> call went through the recorders, so the recorder of \<^verbatim>\<open>recovery\<close> still
  shows status 0. \<^verbatim>\<open>recovery\<close> takes the response for unwritten and calls \<^verbatim>\<open>http.Error\<close>:
  the 500 is ignored and the panic text is appended to the body of the 200 response.
\<close>

theorem implicit_status_not_recorded:
  "fst (accesslog (scripted [Call_Write ''x''] (Panicked (PanicOther ''boom'')))
          (recorder_methods response_methods) example_request (new_recorder new_response)
          example_world) = Panicked (PanicOther ''boom'')
   \<and> status (fst (snd (accesslog (scripted [Call_Write ''x''] (Panicked (PanicOther ''boom'')))
          (recorder_methods response_methods) example_request (new_recorder new_response)
          example_world))) = 0
   \<and> wroteHeader (ResponseWriter (fst (snd (accesslog
          (scripted [Call_Write ''x''] (Panicked (PanicOther ''boom'')))
          (recorder_methods response_methods) example_request (new_recorder new_response)
          example_world))))
   \<and> sent_status (fst (snd (route (scripted [Call_Write ''x''] (Panicked (PanicOther ''boom'')))
          response_methods example_request new_response example_world))) = 200
   \<and> sent_body (fst (snd (route (scripted [Call_Write ''x''] (Panicked (PanicOther ''boom'')))
          response_methods example_request new_response example_world)))
       = ''x'' @ ''boom'' @ [CHR 0x0A]"
  by (simp add: route_def recovery_def recovery_deferred_def accesslog_def scripted_def
        slog_emit_def http_Error_def Let_def recorder_simps response_simps)

end
